theory Spec2Isabelle
  imports Main "HOL-Library.Stream"
begin

section \<open>The four socket programs as functions of the operating system's answers\<close>

text \<open>
  Each program is one \<open>main\<close> that makes a fixed sequence of system calls and branches on
  what they return. The model makes the operating system explicit: an environment holds
  the answer to each call, and \<open>main\<close> becomes a function from the environment to a run,
  that is the trace of calls and console lines in program order, the way the process
  ends, and the receive buffer as \<open>main\<close> leaves it.

  C \<open>int\<close> and \<open>ssize_t\<close> values are modelled as \<open>int\<close>: the programs only compare them
  with \<open>-1\<close> and \<open>0\<close> and use a byte count of at most 1023 as an index, so no arithmetic
  can overflow. A C \<open>char\<close> is a \<open>char\<close> and a byte buffer a \<open>string\<close>.
\<close>

subsection \<open>Constants (the \<open>#define\<close>s and string literals of the sources)\<close>

definition PORT :: nat where
  "PORT = 8080"

definition BUFFER_SIZE :: nat where
  "BUFFER_SIZE = 1024"

definition MAX_PENDING_CONNECTIONS :: int where
  "MAX_PENDING_CONNECTIONS = 5"

definition SERVER_IP :: string where
  "SERVER_IP = ''127.0.0.1''"

definition NUL :: char where
  "NUL = CHR 0x00"

text \<open>\<open>response_message\<close> of \<open>tcp_server.cpp\<close> and of \<open>udp_server.cpp\<close>, \<open>message\<close> of
  \<open>tcp_client.cpp\<close> and of \<open>udp_client.cpp\<close>.\<close>

definition tcp_response_message :: string where
  "tcp_response_message = ''Hello from TCP server!''"

definition udp_response_message :: string where
  "udp_response_message = ''Hello from UDP server!''"

definition tcp_message :: string where
  "tcp_message = ''Hello from TCP client!''"

definition udp_message :: string where
  "udp_message = ''Hello from UDP client!''"

subsection \<open>Addresses, calls and runs\<close>

text \<open>\<open>struct sockaddr_in\<close>. The port is kept in host order: \<open>htons\<close> and \<open>ntohs\<close> only
  change its representation in memory.\<close>

record sockaddr_in =
  sin_family :: nat
  sin_port :: nat
  sin_addr :: nat

definition AF_INET :: nat where
  "AF_INET = 2"

definition INADDR_ANY :: nat where
  "INADDR_ANY = 0"

definition sizeof_sockaddr_in :: nat where
  "sizeof_sockaddr_in = 16"

datatype sock_type = SOCK_STREAM | SOCK_DGRAM

text \<open>
  One event per system call, with its arguments and, last, the value it returned, and one
  per console statement. A console event carries the literal text the statement starts
  with; the operands streamed after it (the \<open>strerror\<close> text, addresses, byte counts, the
  buffer) are formatting and are left out.
\<close>

datatype event =
    Sys_socket sock_type int
  | Sys_setsockopt int int
  | Sys_bind int sockaddr_in int
  | Sys_listen int int int
  | Sys_accept int int
  | Sys_inet_pton string int
  | Sys_connect int sockaddr_in int
  | Sys_recv int nat int
  | Sys_send int string int
  | Sys_recvfrom int nat int
  | Sys_sendto int string sockaddr_in nat int
  | Sys_close int
  | Cout string
  | Cerr string

text \<open>A process ends by returning an exit code from \<open>main\<close>. A store outside the buffer
  is undefined behaviour in C; the model ends the run there with \<open>OutOfBounds\<close>.\<close>

datatype outcome = Exit int | OutOfBounds

record run =
  trace :: "event list"
  outcome :: outcome
  final_buffer :: string

definition halt :: "outcome \<Rightarrow> string \<Rightarrow> run" where
  "halt oc buf = \<lparr>trace = [], outcome = oc, final_buffer = buf\<rparr>"

definition emit :: "event list \<Rightarrow> run \<Rightarrow> run" where
  "emit es r = r\<lparr>trace := es @ trace r\<rparr>"

subsection \<open>The operating system\<close>

text \<open>
  What the kernel and libc answer, call by call. \<open>None\<close> (or \<open>False\<close>) is a failed call,
  which returns \<open>-1\<close>; a descriptor or a byte count is a natural number, so a successful
  call never returns \<open>-1\<close>. \<open>recv_res\<close> and \<open>recvfrom_res\<close> hold the bytes that are waiting
  at the socket when the call returns (for \<open>recvfrom\<close>, with the address of their sender).
  \<open>stack_garbage\<close> is the indeterminate content of an uninitialised \<open>sockaddr_in\<close> local.
  An environment answers every call: a run in which a call does not return to \<open>main\<close> (a
  peer that never answers; a process killed by \<open>SIGPIPE\<close> inside \<open>send\<close>, which the programs
  call with flags 0 and no handler) is not a run of the model, and has no exit code.
\<close>

datatype pton_outcome = PtonOk nat | PtonInvalid | PtonNoSupport

record os_env =
  socket_res :: "nat option"
  setsockopt_res :: bool
  bind_res :: bool
  listen_res :: bool
  accept_res :: "(nat \<times> sockaddr_in) option"
  pton_res :: pton_outcome
  connect_res :: bool
  send_res :: "nat option"
  recv_res :: "string option"
  sendto_res :: "nat option"
  recvfrom_res :: "(string \<times> sockaddr_in) option"
  stack_garbage :: sockaddr_in

definition value_ret :: "nat option \<Rightarrow> int" where
  "value_ret r = (case r of None \<Rightarrow> -1 | Some n \<Rightarrow> int n)"

definition status_ret :: "bool \<Rightarrow> int" where
  "status_ret ok = (if ok then 0 else -1)"

fun pton_ret :: "pton_outcome \<Rightarrow> int" where
  "pton_ret (PtonOk a) = 1"
| "pton_ret PtonInvalid = 0"
| "pton_ret PtonNoSupport = -1"

fun pton_addr :: "pton_outcome \<Rightarrow> nat \<Rightarrow> nat" where
  "pton_addr (PtonOk a) old = a"
| "pton_addr PtonInvalid old = old"
| "pton_addr PtonNoSupport old = old"

text \<open>
  \<open>recv(fd, buf, len, 0)\<close> and \<open>recvfrom\<close>: at most \<open>len\<close> of the waiting bytes are copied
  to the front of the buffer and their number is returned; a failed call returns \<open>-1\<close> and
  leaves the buffer as it was. No waiting byte is end of stream for \<open>recv\<close> and an empty
  datagram for \<open>recvfrom\<close>: both return \<open>0\<close>.
\<close>

definition recv_call :: "string option \<Rightarrow> string \<Rightarrow> nat \<Rightarrow> int \<times> string" where
  "recv_call r buf len =
     (case r of
        None \<Rightarrow> (-1, buf)
      | Some bytes \<Rightarrow>
          (let got = take len bytes in (int (length got), got @ drop (length got) buf)))"

text \<open>The C assignment \<open>buf[i] = c\<close>: defined only for an index inside the array.\<close>

definition buffer_store :: "string \<Rightarrow> int \<Rightarrow> char \<Rightarrow> string option" where
  "buffer_store buf i c =
     (if 0 \<le> i \<and> i < int (length buf) then Some (buf[nat i := c]) else None)"

subsection \<open>\<open>tcp_server.cpp\<close>\<close>

definition tcp_server_main :: "os_env \<Rightarrow> run" where
  "tcp_server_main env =
    (let buffer = replicate BUFFER_SIZE NUL;
         server_socket = value_ret (socket_res env)
     in emit [Sys_socket SOCK_STREAM server_socket]
     (if server_socket = -1 then
        emit [Cerr ''Error: Could not create socket. ''] (halt (Exit 1) buffer)
      else emit [Cout ''Server socket created successfully.'']
     (let opt_ret = status_ret (setsockopt_res env)
      in emit (Sys_setsockopt server_socket opt_ret #
               (if opt_ret = -1 then [Cerr ''Warning: setsockopt SO_REUSEADDR failed. ''] else []))
     (let server_address = \<lparr>sin_family = AF_INET, sin_port = PORT, sin_addr = INADDR_ANY\<rparr>;
          bind_ret = status_ret (bind_res env)
      in emit [Sys_bind server_socket server_address bind_ret]
     (if bind_ret = -1 then
        emit [Cerr ''Error: Bind failed. '', Sys_close server_socket] (halt (Exit 1) buffer)
      else emit [Cout ''Socket bound to port '']
     (let listen_ret = status_ret (listen_res env)
      in emit [Sys_listen server_socket MAX_PENDING_CONNECTIONS listen_ret]
     (if listen_ret = -1 then
        emit [Cerr ''Error: Listen failed. '', Sys_close server_socket] (halt (Exit 1) buffer)
      else emit [Cout ''Server listening on port '']
     (let client_socket = value_ret (map_option fst (accept_res env))
      in emit [Sys_accept server_socket client_socket]
     (if client_socket = -1 then
        emit [Cerr ''Error: Accept failed. '', Sys_close server_socket] (halt (Exit 1) buffer)
      else emit [Cout ''Accepted connection from '']
     (let (bytes_received, buffer) = recv_call (recv_res env) buffer (BUFFER_SIZE - 1);
          closing = [Sys_close client_socket, Cout ''Client socket closed.'',
                     Sys_close server_socket, Cout ''Server socket closed.'']
      in emit [Sys_recv client_socket (BUFFER_SIZE - 1) bytes_received]
     (if bytes_received = -1 then
        emit (Cerr ''Error: Receive failed. '' # closing) (halt (Exit 0) buffer)
      else if bytes_received = 0 then
        emit (Cout ''Client disconnected.'' # closing) (halt (Exit 0) buffer)
      else
        (case buffer_store buffer bytes_received NUL of
           None \<Rightarrow> halt OutOfBounds buffer
         | Some buffer \<Rightarrow>
             emit [Cout ''Message received from client: '']
             (let bytes_sent = value_ret (send_res env)
              in emit [Sys_send client_socket tcp_response_message bytes_sent]
              (if bytes_sent = -1 then
                 emit (Cerr ''Error: Send failed. '' # closing) (halt (Exit 0) buffer)
               else
                 emit (Cout ''Response sent to client: '' # closing)
                   (halt (Exit 0) buffer)))))))))))))))"

subsection \<open>\<open>tcp_client.cpp\<close>\<close>

text \<open>The \<open>memset\<close> clears \<open>server_address\<close>; \<open>inet_pton\<close> writes \<open>sin_addr\<close> only when it
  succeeds.\<close>

definition tcp_client_main :: "os_env \<Rightarrow> run" where
  "tcp_client_main env =
    (let buffer = replicate BUFFER_SIZE NUL;
         client_socket = value_ret (socket_res env)
     in emit [Sys_socket SOCK_STREAM client_socket]
     (if client_socket = -1 then
        emit [Cerr ''Error: Could not create socket. ''] (halt (Exit 1) buffer)
      else emit [Cout ''Socket created successfully.'']
     (let server_address = \<lparr>sin_family = AF_INET, sin_port = PORT, sin_addr = 0\<rparr>;
          pton = pton_ret (pton_res env);
          server_address = server_address
            \<lparr>sin_addr := pton_addr (pton_res env) (sin_addr server_address)\<rparr>
      in emit [Sys_inet_pton SERVER_IP pton]
     (if pton \<le> 0 then
        emit [Cerr ''Error: Invalid address/ Address not supported. '',
              Sys_close client_socket] (halt (Exit 1) buffer)
      else
     (let connect_ret = status_ret (connect_res env)
      in emit [Sys_connect client_socket server_address connect_ret]
     (if connect_ret = -1 then
        emit [Cerr ''Error: Connection failed. '', Sys_close client_socket]
          (halt (Exit 1) buffer)
      else emit [Cout ''Connected to server '']
     (let bytes_sent = value_ret (send_res env)
      in emit [Sys_send client_socket tcp_message bytes_sent]
     (if bytes_sent = -1 then
        emit [Cerr ''Error: Send failed. '', Sys_close client_socket] (halt (Exit 1) buffer)
      else emit [Cout ''Message sent: '']
     (let (bytes_received, buffer) = recv_call (recv_res env) buffer (BUFFER_SIZE - 1);
          closing = [Sys_close client_socket, Cout ''Socket closed.'']
      in emit [Sys_recv client_socket (BUFFER_SIZE - 1) bytes_received]
     (if bytes_received = -1 then
        emit [Cerr ''Error: Receive failed. '', Sys_close client_socket]
          (halt (Exit 1) buffer)
      else if bytes_received = 0 then
        emit (Cout ''Server closed the connection.'' # closing) (halt (Exit 0) buffer)
      else
        (case buffer_store buffer bytes_received NUL of
           None \<Rightarrow> halt OutOfBounds buffer
         | Some buffer \<Rightarrow>
             emit (Cout ''Message received: '' # closing) (halt (Exit 0) buffer))))))))))))"

subsection \<open>\<open>udp_client.cpp\<close>\<close>

text \<open>
  \<open>recvfrom(fd, buf, len, 0, &addr, &addrlen)\<close> is \<open>recv\<close> that also reports the sender:
  when it succeeds it overwrites the address variable with the sender's address and the
  length variable with the size of that address, which for an IPv4 socket is
  \<open>sizeof(struct sockaddr_in)\<close>; when it fails it writes nothing.
\<close>

definition recvfrom_call ::
  "(string \<times> sockaddr_in) option \<Rightarrow> string \<Rightarrow> nat \<Rightarrow> sockaddr_in \<Rightarrow> nat
     \<Rightarrow> int \<times> string \<times> sockaddr_in \<times> nat" where
  "recvfrom_call r buf len addr addrlen =
     (case r of
        None \<Rightarrow> (-1, buf, addr, addrlen)
      | Some (bytes, src) \<Rightarrow>
          (let (n, buf') = recv_call (Some bytes) buf len
           in (n, buf', src, sizeof_sockaddr_in)))"

definition udp_client_main :: "os_env \<Rightarrow> run" where
  "udp_client_main env =
    (let buffer = replicate BUFFER_SIZE NUL;
         client_socket = value_ret (socket_res env)
     in emit [Sys_socket SOCK_DGRAM client_socket]
     (if client_socket = -1 then
        emit [Cerr ''Error: Could not create socket. ''] (halt (Exit 1) buffer)
      else emit [Cout ''Socket created successfully.'']
     (let server_address = \<lparr>sin_family = AF_INET, sin_port = PORT, sin_addr = 0\<rparr>;
          pton = pton_ret (pton_res env);
          server_address = server_address
            \<lparr>sin_addr := pton_addr (pton_res env) (sin_addr server_address)\<rparr>
      in emit [Sys_inet_pton SERVER_IP pton]
     (if pton \<le> 0 then
        emit [Cerr ''Error: Invalid address/ Address not supported. '',
              Sys_close client_socket] (halt (Exit 1) buffer)
      else
     (let bytes_sent = value_ret (sendto_res env)
      in emit [Sys_sendto client_socket udp_message server_address sizeof_sockaddr_in
                 bytes_sent]
     (if bytes_sent = -1 then
        emit [Cerr ''Error: Sendto failed. '', Sys_close client_socket] (halt (Exit 1) buffer)
      else emit [Cout ''Message sent to '']
     (let server_address_len = sizeof_sockaddr_in;
          (bytes_received, buffer, server_address, server_address_len) =
             recvfrom_call (recvfrom_res env) buffer (BUFFER_SIZE - 1) server_address
               server_address_len;
          closing = [Sys_close client_socket, Cout ''Socket closed.'']
      in emit [Sys_recvfrom client_socket (BUFFER_SIZE - 1) bytes_received]
     (if bytes_received = -1 then
        emit [Cerr ''Error: Recvfrom failed. '', Sys_close client_socket]
          (halt (Exit 1) buffer)
      else if bytes_received = 0 then
        emit (Cout ''Server closed the connection (no data received).'' # closing)
          (halt (Exit 0) buffer)
      else
        (case buffer_store buffer bytes_received NUL of
           None \<Rightarrow> halt OutOfBounds buffer
         | Some buffer \<Rightarrow>
             emit (Cout ''Message received: '' # closing) (halt (Exit 0) buffer))))))))))"

subsection \<open>\<open>udp_server.cpp\<close>\<close>

text \<open>The locals that live across iterations of the loop. \<open>client_address\<close> and
  \<open>client_address_len\<close> are declared once, before the loop, and are the variables both
  \<open>recvfrom\<close> and \<open>sendto\<close> are given in every iteration; the buffer is not cleared
  between iterations.\<close>

record udp_server_state =
  server_socket :: int
  client_address :: sockaddr_in
  client_address_len :: nat
  buffer :: string

text \<open>
  Lines 29 to 69: everything before the loop. The result is the trace and either the
  exit code \<open>main\<close> returns with, or the state in which the loop is entered.
\<close>

definition udp_server_setup :: "os_env \<Rightarrow> event list \<times> (int + udp_server_state)" where
  "udp_server_setup env =
    (let server_socket = value_ret (socket_res env)
     in if server_socket = -1 then
          ([Sys_socket SOCK_DGRAM server_socket, Cerr ''Error: Could not create socket. ''],
           Inl 1)
        else
     (let opt_ret = status_ret (setsockopt_res env);
          server_address = \<lparr>sin_family = AF_INET, sin_port = PORT, sin_addr = INADDR_ANY\<rparr>;
          bind_ret = status_ret (bind_res env);
          es = [Sys_socket SOCK_DGRAM server_socket,
                Cout ''Server socket created successfully.'',
                Sys_setsockopt server_socket opt_ret] @
               (if opt_ret = -1 then [Cerr ''Warning: setsockopt SO_REUSEADDR failed. '']
                else []) @
               [Sys_bind server_socket server_address bind_ret]
      in if bind_ret = -1 then
           (es @ [Cerr ''Error: Bind failed. '', Sys_close server_socket], Inl 1)
         else
           (es @ [Cout ''Socket bound to port '', Cout ''UDP Server listening on port ''],
            Inr \<lparr>server_socket = server_socket,
                 client_address = stack_garbage env,
                 client_address_len = sizeof_sockaddr_in,
                 buffer = replicate BUFFER_SIZE NUL\<rparr>)))"

text \<open>
  What the operating system answers in one iteration: to \<open>recvfrom\<close> and, if the
  iteration gets that far, to \<open>sendto\<close>.
\<close>

type_synonym udp_input = "(string \<times> sockaddr_in) option \<times> nat option"

text \<open>
  The loop body, lines 73 to 98. The third component is \<open>None\<close> when control goes back
  to the head of the loop (by \<open>continue\<close> or by reaching the end of the body) and \<open>Some\<close>
  when the process stops inside the body. The body has no \<open>break\<close> and no \<open>return\<close>.
\<close>

definition udp_server_iteration ::
  "udp_server_state \<Rightarrow> udp_input \<Rightarrow> event list \<times> udp_server_state \<times> outcome option" where
  "udp_server_iteration st inp =
    (let (bytes_received, buf, addr, addrlen) =
           recvfrom_call (fst inp) (buffer st) (BUFFER_SIZE - 1) (client_address st)
             (client_address_len st);
         st = st\<lparr>buffer := buf, client_address := addr, client_address_len := addrlen\<rparr>;
         received = Sys_recvfrom (server_socket st) (BUFFER_SIZE - 1) bytes_received
     in if bytes_received = -1 then
          ([received, Cerr ''Error: Recvfrom failed. ''], st, None)
        else if bytes_received = 0 then
          ([received, Cout ''Received empty datagram.''], st, None)
        else
          (case buffer_store (buffer st) bytes_received NUL of
             None \<Rightarrow> ([received], st, Some OutOfBounds)
           | Some buf \<Rightarrow>
               (let st = st\<lparr>buffer := buf\<rparr>;
                    bytes_sent = value_ret (snd inp);
                    es = [received, Cout ''Received from '',
                          Sys_sendto (server_socket st) udp_response_message
                            (client_address st) (client_address_len st) bytes_sent]
                in if bytes_sent = -1 then (es @ [Cerr ''Error: Sendto failed. ''], st, None)
                   else (es @ [Cout ''Response sent to ''], st, None))))"

text \<open>
  \<open>while (true)\<close> over the stream of the operating system's answers. The loop returns a
  value only if an iteration stops the process; not returning is \<open>None\<close>. The statements
  after the loop (lines 101 to 105: close the socket, return 0) can be reached only by
  leaving the loop, and the loop has no exit, so they are not part of the model.
\<close>

partial_function (option) udp_server_loop ::
  "udp_server_state \<Rightarrow> udp_input stream \<Rightarrow> outcome option" where
  "udp_server_loop st ins =
     (case udp_server_iteration st (shd ins) of
        (es, st', None) \<Rightarrow> udp_server_loop st' (stl ins)
      | (es, st', Some oc) \<Rightarrow> Some oc)"

definition udp_server_main :: "os_env \<Rightarrow> udp_input stream \<Rightarrow> outcome option" where
  "udp_server_main env ins =
     (case udp_server_setup env of
        (es, Inl code) \<Rightarrow> Some (Exit code)
      | (es, Inr st) \<Rightarrow> udp_server_loop st ins)"

text \<open>
  What an observer has seen of the loop after the operating system has given the listed
  answers: the events of each iteration in order, one list per iteration, and the outcome
  if the process stopped (\<open>None\<close>: the loop is waiting in its next \<open>recvfrom\<close>).
\<close>

fun udp_server_iterations ::
  "udp_server_state \<Rightarrow> udp_input list \<Rightarrow> event list list \<times> outcome option" where
  "udp_server_iterations st [] = ([], None)"
| "udp_server_iterations st (inp # ins) =
     (case udp_server_iteration st inp of
        (es, st', None) \<Rightarrow>
          (case udp_server_iterations st' ins of (ess, oc) \<Rightarrow> (es # ess, oc))
      | (es, st', Some oc) \<Rightarrow> ([es], Some oc))"

subsection \<open>Observations on traces\<close>

text \<open>The descriptors a trace creates (a successful \<open>socket\<close> or \<open>accept\<close>) and the ones it
  closes, in order; the accept calls; the backlogs given to \<open>listen\<close>; the payloads put on
  the wire and the destinations of datagrams.\<close>

fun opened :: "event \<Rightarrow> int list" where
  "opened (Sys_socket t fd) = (if fd = -1 then [] else [fd])"
| "opened (Sys_accept s fd) = (if fd = -1 then [] else [fd])"
| "opened e = []"

fun closed :: "event \<Rightarrow> int list" where
  "closed (Sys_close fd) = [fd]"
| "closed e = []"

fun accepts :: "event \<Rightarrow> int list" where
  "accepts (Sys_accept s fd) = [s]"
| "accepts e = []"

fun backlogs :: "event \<Rightarrow> int list" where
  "backlogs (Sys_listen s n r) = [n]"
| "backlogs e = []"

fun payloads :: "event \<Rightarrow> string list" where
  "payloads (Sys_send fd m r) = [m]"
| "payloads (Sys_sendto fd m a l r) = [m]"
| "payloads e = []"

fun destinations :: "event \<Rightarrow> sockaddr_in list" where
  "destinations (Sys_sendto fd m a l r) = [a]"
| "destinations e = []"

fun requested :: "event \<Rightarrow> nat list" where
  "requested (Sys_recv fd len r) = [len]"
| "requested (Sys_recvfrom fd len r) = [len]"
| "requested e = []"

fun errors :: "event \<Rightarrow> string list" where
  "errors (Cerr m) = [m]"
| "errors e = []"

definition created_fds :: "event list \<Rightarrow> int list" where
  "created_fds t = concat (map opened t)"

definition closed_fds :: "event list \<Rightarrow> int list" where
  "closed_fds t = concat (map closed t)"

definition accept_calls :: "event list \<Rightarrow> int list" where
  "accept_calls t = concat (map accepts t)"

definition listen_backlogs :: "event list \<Rightarrow> int list" where
  "listen_backlogs t = concat (map backlogs t)"

definition sent_payloads :: "event list \<Rightarrow> string list" where
  "sent_payloads t = concat (map payloads t)"

definition reply_destinations :: "event list \<Rightarrow> sockaddr_in list" where
  "reply_destinations t = concat (map destinations t)"

definition receive_requests :: "event list \<Rightarrow> nat list" where
  "receive_requests t = concat (map requested t)"

definition error_lines :: "event list \<Rightarrow> string list" where
  "error_lines t = concat (map errors t)"

subsection \<open>Failures of the setup calls\<close>

text \<open>The calls each program makes before it transfers data: some call among them
  fails. For the stream server these are \<open>socket\<close>, \<open>bind\<close>, \<open>listen\<close> and \<open>accept\<close>; for
  the stream client \<open>socket\<close>, \<open>inet_pton\<close> (which reports an invalid address by a result
  of \<open>0\<close> or less) and \<open>connect\<close>; for the datagram client \<open>socket\<close> and \<open>inet_pton\<close>.\<close>

definition tcp_server_setup_fails :: "os_env \<Rightarrow> bool" where
  "tcp_server_setup_fails env \<longleftrightarrow>
     socket_res env = None \<or> \<not> bind_res env \<or> \<not> listen_res env \<or> accept_res env = None"

definition tcp_client_setup_fails :: "os_env \<Rightarrow> bool" where
  "tcp_client_setup_fails env \<longleftrightarrow>
     socket_res env = None \<or> pton_ret (pton_res env) \<le> 0 \<or> \<not> connect_res env"

definition udp_client_setup_fails :: "os_env \<Rightarrow> bool" where
  "udp_client_setup_fails env \<longleftrightarrow>
     socket_res env = None \<or> pton_ret (pton_res env) \<le> 0"

subsection \<open>Example environments\<close>

text \<open>Two datagram clients on the loopback address, an environment in which every call
  succeeds (descriptor 3 for the first socket, 4 for the accepted one, 22 bytes sent), and
  the state in which the datagram server enters its loop there.\<close>

definition client_a :: sockaddr_in where
  "client_a = \<lparr>sin_family = AF_INET, sin_port = 50001, sin_addr = 2130706433\<rparr>"

definition client_b :: sockaddr_in where
  "client_b = \<lparr>sin_family = AF_INET, sin_port = 50002, sin_addr = 2130706433\<rparr>"

definition zero_address :: sockaddr_in where
  "zero_address = \<lparr>sin_family = 0, sin_port = 0, sin_addr = 0\<rparr>"

definition friendly_env :: os_env where
  "friendly_env =
     \<lparr>socket_res = Some 3, setsockopt_res = True, bind_res = True, listen_res = True,
      accept_res = Some (4, client_a), pton_res = PtonOk 2130706433, connect_res = True,
      send_res = Some 22, recv_res = Some ''Hello'', sendto_res = Some 22,
      recvfrom_res = Some (''Hello'', client_a), stack_garbage = zero_address\<rparr>"

definition idle_state :: udp_server_state where
  "idle_state =
     \<lparr>server_socket = 3, client_address = zero_address,
      client_address_len = sizeof_sockaddr_in, buffer = replicate BUFFER_SIZE NUL\<rparr>"

section \<open>The operating system's calls\<close>

text \<open>The definitions every \<open>main\<close> is unfolded with.\<close>

lemmas call_defs = emit_def halt_def Let_def value_ret_def status_ret_def

lemma recv_call_None: "recv_call None buf len = (-1, buf)"
  by (simp add: recv_call_def)

lemma recv_call_Some:
  "recv_call (Some bs) buf len =
     (int (min (length bs) len), take len bs @ drop (min (length bs) len) buf)"
  by (simp add: recv_call_def Let_def)

lemma recvfrom_call_None: "recvfrom_call None buf len a l = (-1, buf, a, l)"
  by (simp add: recvfrom_call_def)

lemma recvfrom_call_Some:
  "recvfrom_call (Some (bs, src)) buf len a l =
     (int (min (length bs) len), take len bs @ drop (min (length bs) len) buf, src,
      sizeof_sockaddr_in)"
  by (simp add: recvfrom_call_def recv_call_Some)

lemma recvfrom_call_positive:
  "recvfrom_call r buf (BUFFER_SIZE - 1) a l = (n, buf', addr, addrlen) \<Longrightarrow>
     (case r of None \<Rightarrow> n = -1 | Some (bs, src) \<Rightarrow> src = addr \<and> (0 < n \<longleftrightarrow> bs \<noteq> []))"
  by (cases r) (auto simp: recvfrom_call_None recvfrom_call_Some BUFFER_SIZE_def)

lemma buffer_store_in_range:
  "i < length buf \<Longrightarrow> buffer_store buf (int i) c = Some (buf[i := c])"
  by (simp add: buffer_store_def)

text \<open>A receive of \<open>BUFFER_SIZE - 1\<close> bytes into a buffer of \<open>BUFFER_SIZE\<close> bytes leaves room
  for the terminator.\<close>

lemma recv_call_stores_in_bounds:
  assumes "length buf = BUFFER_SIZE"
  shows "(let (n, buf') = recv_call r buf (BUFFER_SIZE - 1)
          in length buf' = BUFFER_SIZE \<and>
             (0 < n \<longrightarrow> n \<le> int (BUFFER_SIZE - 1) \<and> n < int BUFFER_SIZE \<and>
                buffer_store buf' n NUL = Some (buf'[nat n := NUL])))"
  using assms
  by (cases r) (auto simp: recv_call_None recv_call_Some buffer_store_def BUFFER_SIZE_def)

text \<open>A receive of all \<open>BUFFER_SIZE\<close> bytes would not: filled to the end, the buffer has
  no slot left and the store of the terminator is out of bounds.\<close>

lemma full_request_would_overrun:
  assumes "length buf = BUFFER_SIZE" and "BUFFER_SIZE \<le> length bs"
  shows "(let (n, buf') = recv_call (Some bs) buf BUFFER_SIZE
          in n = int BUFFER_SIZE \<and> buffer_store buf' n NUL = None)"
  using assms by (simp add: recv_call_Some buffer_store_def)

text \<open>The terminator is stored right behind the received bytes: the buffer then holds the
  received bytes, a \<open>NUL\<close>, and what it held before from there on.\<close>

lemma store_after_prefix:
  assumes "length xs < length buf"
  shows "(xs @ drop (length xs) buf)[length xs := c] = xs @ c # drop (Suc (length xs)) buf"
proof -
  from assms have "drop (length xs) buf = buf ! length xs # drop (Suc (length xs)) buf"
    by (simp add: Cons_nth_drop_Suc)
  then show ?thesis
    by (simp add: list_update_append)
qed

lemma recv_then_store:
  assumes "length buf = BUFFER_SIZE"
  shows "buffer_store (take (BUFFER_SIZE - 1) bs @ drop (min (length bs) (BUFFER_SIZE - 1)) buf)
           (int (min (length bs) (BUFFER_SIZE - 1))) NUL =
         Some (take (BUFFER_SIZE - 1) bs @
               NUL # drop (Suc (min (length bs) (BUFFER_SIZE - 1))) buf)"
proof -
  let ?xs = "take (BUFFER_SIZE - 1) bs"
  have len: "length ?xs = min (length bs) (BUFFER_SIZE - 1)"
    by simp
  have lt: "length ?xs < length buf"
    using assms by (simp add: BUFFER_SIZE_def)
  have "buffer_store (?xs @ drop (length ?xs) buf) (int (length ?xs)) NUL =
          Some ((?xs @ drop (length ?xs) buf)[length ?xs := NUL])"
    using lt by (intro buffer_store_in_range) simp
  also have "\<dots> = Some (?xs @ NUL # drop (Suc (length ?xs)) buf)"
    using lt by (simp only: store_after_prefix)
  finally show ?thesis
    by (simp only: len)
qed

lemma replicate_buffer: "replicate 1024 c = c # replicate 1023 c"
proof -
  have "(1024::nat) = Suc 1023"
    by simp
  then show ?thesis
    by (simp only: replicate_Suc)
qed

section \<open>The datagram server\<close>

subsection \<open>One iteration, by what \<open>recvfrom\<close> returns\<close>

lemma iteration_recv_fails:
  "udp_server_iteration st (None, so) =
     ([Sys_recvfrom (server_socket st) (BUFFER_SIZE - 1) (-1),
       Cerr ''Error: Recvfrom failed. ''],
      st, None)"
  by (simp add: udp_server_iteration_def recvfrom_call_None)

lemma iteration_empty:
  "udp_server_iteration st (Some ([], src), so) =
     ([Sys_recvfrom (server_socket st) (BUFFER_SIZE - 1) 0, Cout ''Received empty datagram.''],
      st\<lparr>client_address := src, client_address_len := sizeof_sockaddr_in\<rparr>, None)"
  by (simp add: udp_server_iteration_def recvfrom_call_Some)

lemma iteration_datagram:
  assumes "length (buffer st) = BUFFER_SIZE" and "bs \<noteq> []"
  shows "udp_server_iteration st (Some (bs, src), so) =
     ([Sys_recvfrom (server_socket st) (BUFFER_SIZE - 1)
         (int (min (length bs) (BUFFER_SIZE - 1))),
       Cout ''Received from '',
       Sys_sendto (server_socket st) udp_response_message src sizeof_sockaddr_in
         (value_ret so),
       (if value_ret so = -1 then Cerr ''Error: Sendto failed. ''
        else Cout ''Response sent to '')],
      st\<lparr>buffer := (take (BUFFER_SIZE - 1) bs @
                      drop (min (length bs) (BUFFER_SIZE - 1)) (buffer st))
                      [min (length bs) (BUFFER_SIZE - 1) := NUL],
         client_address := src, client_address_len := sizeof_sockaddr_in\<rparr>, None)"
proof -
  let ?n = "min (length bs) (BUFFER_SIZE - 1)"
  let ?buf = "take (BUFFER_SIZE - 1) bs @ drop ?n (buffer st)"
  have n: "0 < ?n" "?n < length ?buf"
    using assms by (auto simp: BUFFER_SIZE_def)
  have store: "buffer_store ?buf (int ?n) NUL = Some (?buf[?n := NUL])"
    using n(2) by (rule buffer_store_in_range)
  show ?thesis
    using n(1) store
    by (simp add: udp_server_iteration_def recvfrom_call_Some Let_def)
qed

text \<open>With a buffer of the declared size no iteration stops the process, and the buffer
  keeps its size.\<close>

lemma iteration_continues:
  assumes "length (buffer st) = BUFFER_SIZE"
  shows "\<exists>es st'. udp_server_iteration st inp = (es, st', None) \<and>
           length (buffer st') = BUFFER_SIZE \<and> server_socket st' = server_socket st"
proof (cases inp)
  case (Pair r so)
  show ?thesis
  proof (cases r)
    case None
    with Pair assms show ?thesis by (simp add: iteration_recv_fails)
  next
    case (Some d)
    obtain bs src where d: "d = (bs, src)" by (cases d)
    show ?thesis
    proof (cases "bs = []")
      case True
      with Pair Some d assms show ?thesis by (simp add: iteration_empty)
    next
      case False
      with Pair Some d assms show ?thesis
        by (simp add: iteration_datagram BUFFER_SIZE_def)
    qed
  qed
qed

lemma iteration_destinations:
  assumes "length (buffer st) = BUFFER_SIZE"
  shows "reply_destinations (fst (udp_server_iteration st inp)) =
           (case fst inp of None \<Rightarrow> [] | Some (bs, src) \<Rightarrow> if bs = [] then [] else [src])"
proof (cases inp)
  case (Pair r so)
  show ?thesis
  proof (cases r)
    case None
    with Pair show ?thesis
      by (simp add: iteration_recv_fails reply_destinations_def)
  next
    case (Some d)
    obtain bs src where d: "d = (bs, src)" by (cases d)
    show ?thesis
    proof (cases "bs = []")
      case True
      with Pair Some d show ?thesis
        by (simp add: iteration_empty reply_destinations_def)
    next
      case False
      with Pair Some d assms show ?thesis
        by (simp add: iteration_datagram reply_destinations_def)
    qed
  qed
qed

lemma udp_server_receives:
  "length (buffer st) = BUFFER_SIZE \<longrightarrow>
     receive_requests (fst (udp_server_iteration st (Some (msg, src), so))) = [BUFFER_SIZE - 1] \<and>
     buffer (fst (snd (udp_server_iteration st (Some (msg, src), so)))) =
       (if msg = [] then buffer st
        else take (BUFFER_SIZE - 1) msg @
             NUL # drop (Suc (min (length msg) (BUFFER_SIZE - 1))) (buffer st)) \<and>
     (length msg = BUFFER_SIZE - 1 \<longrightarrow>
        buffer (fst (snd (udp_server_iteration st (Some (msg, src), so)))) = msg @ [NUL]) \<and>
     (BUFFER_SIZE \<le> length msg \<longrightarrow>
        buffer (fst (snd (udp_server_iteration st (Some (msg, src), so)))) =
          take (BUFFER_SIZE - 1) msg @ [NUL]) \<and>
     set (sent_payloads (fst (udp_server_iteration st (Some (msg, src), so))))
       \<subseteq> {udp_response_message}"
proof
  assume len: "length (buffer st) = BUFFER_SIZE"
  let ?it = "udp_server_iteration st (Some (msg, src), so)"
  let ?n = "min (length msg) (BUFFER_SIZE - 1)"
  show "receive_requests (fst ?it) = [BUFFER_SIZE - 1] \<and>
     buffer (fst (snd ?it)) =
       (if msg = [] then buffer st
        else take (BUFFER_SIZE - 1) msg @ NUL # drop (Suc ?n) (buffer st)) \<and>
     (length msg = BUFFER_SIZE - 1 \<longrightarrow> buffer (fst (snd ?it)) = msg @ [NUL]) \<and>
     (BUFFER_SIZE \<le> length msg \<longrightarrow>
        buffer (fst (snd ?it)) = take (BUFFER_SIZE - 1) msg @ [NUL]) \<and>
     set (sent_payloads (fst ?it)) \<subseteq> {udp_response_message}"
  proof (cases "msg = []")
    case True
    then show ?thesis
      by (simp add: iteration_empty receive_requests_def sent_payloads_def BUFFER_SIZE_def)
  next
    case False
    have lt: "length (take (BUFFER_SIZE - 1) msg) < length (buffer st)"
      using len by (simp add: BUFFER_SIZE_def)
    have upd: "(take (BUFFER_SIZE - 1) msg @ drop ?n (buffer st))[?n := NUL] =
            take (BUFFER_SIZE - 1) msg @ NUL # drop (Suc ?n) (buffer st)"
      using store_after_prefix [OF lt, of NUL] by simp
    have b: "buffer (fst (snd ?it)) =
               take (BUFFER_SIZE - 1) msg @ NUL # drop (Suc ?n) (buffer st)"
      using False len upd by (simp add: iteration_datagram)
    have r: "receive_requests (fst ?it) = [BUFFER_SIZE - 1]"
      using False len by (simp add: iteration_datagram receive_requests_def)
    have p: "set (sent_payloads (fst ?it)) \<subseteq> {udp_response_message}"
      using False len by (simp add: iteration_datagram sent_payloads_def)
    have b1: "length msg = BUFFER_SIZE - 1 \<longrightarrow>
        take (BUFFER_SIZE - 1) msg @ NUL # drop (Suc ?n) (buffer st) = msg @ [NUL]"
      using len by (simp add: BUFFER_SIZE_def)
    have b2: "BUFFER_SIZE \<le> length msg \<longrightarrow>
        take (BUFFER_SIZE - 1) msg @ NUL # drop (Suc ?n) (buffer st) =
          take (BUFFER_SIZE - 1) msg @ [NUL]"
      using len by (simp add: BUFFER_SIZE_def)
    from False r p b1 b2 show ?thesis
      unfolding b by simp
  qed
qed

subsection \<open>The loop does not return\<close>

text \<open>Whatever the loop returns, it returns from a state whose buffer does not have the
  declared size: by the induction rule of the partial function.\<close>

lemma loop_returns_only_from_bad_state:
  assumes "udp_server_loop st ins = Some oc"
  shows "length (buffer st) \<noteq> BUFFER_SIZE"
proof (rule udp_server_loop.raw_induct
    [where P = "\<lambda>st ins oc. length (buffer st) \<noteq> BUFFER_SIZE", OF _ assms])
  fix loop :: "udp_server_state \<Rightarrow> udp_input stream \<Rightarrow> outcome option"
    and st ins oc
  assume IH: "\<And>st ins oc. loop st ins = Some oc \<Longrightarrow> length (buffer st) \<noteq> BUFFER_SIZE"
    and body: "(case udp_server_iteration st (shd ins) of
                  (es, st', None) \<Rightarrow> loop st' (stl ins)
                | (es, st', Some oc) \<Rightarrow> Some oc) = Some oc"
  show "length (buffer st) \<noteq> BUFFER_SIZE"
  proof
    assume len: "length (buffer st) = BUFFER_SIZE"
    from iteration_continues [OF len, of "shd ins"]
    obtain es st' where it: "udp_server_iteration st (shd ins) = (es, st', None)"
      and len': "length (buffer st') = BUFFER_SIZE" by blast
    from body it have "loop st' (stl ins) = Some oc" by simp
    from IH [OF this] len' show False by simp
  qed
qed

lemma loop_never_returns:
  "length (buffer st) = BUFFER_SIZE \<Longrightarrow> udp_server_loop st ins = None"
  using loop_returns_only_from_bad_state [of st ins]
  by (cases "udp_server_loop st ins") auto

lemma iterations_never_stop:
  "length (buffer st) = BUFFER_SIZE \<Longrightarrow>
     snd (udp_server_iterations st inps) = None \<and>
     length (fst (udp_server_iterations st inps)) = length inps"
proof (induction inps arbitrary: st)
  case Nil
  show ?case by simp
next
  case (Cons inp inps)
  from iteration_continues [OF Cons.prems, of inp]
  obtain es st' where it: "udp_server_iteration st inp = (es, st', None)"
    and len': "length (buffer st') = BUFFER_SIZE" by blast
  from Cons.IH [OF len'] it show ?case
    by (cases "udp_server_iterations st' inps") simp
qed

text \<open>The two views of the loop agree: a stop that shows after finitely many answers is
  the value the loop returns. And the loop can return: from a state whose buffer is
  shorter than the declared size, the first datagram ends the run out of bounds.\<close>

lemma prefix_stop_is_loop_result:
  "snd (udp_server_iterations st (stake n ins)) = Some oc \<Longrightarrow> udp_server_loop st ins = Some oc"
proof (induction n arbitrary: st ins)
  case 0
  then show ?case by simp
next
  case (Suc n)
  obtain es st' r where it: "udp_server_iteration st (shd ins) = (es, st', r)"
    by (cases "udp_server_iteration st (shd ins)") auto
  show ?case
  proof (cases r)
    case None
    with Suc.prems it have "snd (udp_server_iterations st' (stake n (stl ins))) = Some oc"
      by (simp split: prod.splits)
    from Suc.IH [OF this] it None show ?thesis
      by (subst udp_server_loop.simps) simp
  next
    case (Some oc')
    with Suc.prems it show ?thesis
      by (subst udp_server_loop.simps) simp
  qed
qed

lemma short_buffer_overruns:
  "udp_server_loop (idle_state\<lparr>buffer := ''abc''\<rparr>) (sconst (Some (''Hello'', client_a), None)) =
     Some OutOfBounds"
  by (subst udp_server_loop.simps)
    (simp add: udp_server_iteration_def recvfrom_call_Some buffer_store_def BUFFER_SIZE_def
      idle_state_def)

subsection \<open>Before the loop\<close>

lemma setup_result:
  "udp_server_setup env =
     (fst (udp_server_setup env),
      if socket_res env = None \<or> \<not> bind_res env then Inl 1
      else Inr \<lparr>server_socket = value_ret (socket_res env),
                client_address = stack_garbage env,
                client_address_len = sizeof_sockaddr_in,
                buffer = replicate BUFFER_SIZE NUL\<rparr>)"
  by (auto simp: udp_server_setup_def call_defs split: option.splits)

lemma setup_warning:
  "socket_res env \<noteq> None \<Longrightarrow> \<not> setsockopt_res env \<Longrightarrow>
     Sys_setsockopt (value_ret (socket_res env)) (-1) \<in> set (fst (udp_server_setup env)) \<and>
     Cerr ''Warning: setsockopt SO_REUSEADDR failed. '' \<in> set (fst (udp_server_setup env))"
  by (auto simp: udp_server_setup_def call_defs split: option.splits)

lemma udp_server_main_result:
  "udp_server_main env ins =
     (if socket_res env = None \<or> \<not> bind_res env then Some (Exit 1) else None)"
proof -
  have "udp_server_loop \<lparr>server_socket = value_ret (socket_res env),
                client_address = stack_garbage env,
                client_address_len = sizeof_sockaddr_in,
                buffer = replicate BUFFER_SIZE NUL\<rparr> ins = None"
    by (rule loop_never_returns) simp
  then show ?thesis
    unfolding udp_server_main_def
    by (subst setup_result) simp
qed

section \<open>The programs that run once\<close>

text \<open>Facts about \<open>tcp_server_main\<close>, \<open>tcp_client_main\<close> and \<open>udp_client_main\<close> over every
  environment, each by following the branches of \<open>main\<close>.\<close>

lemma tcp_server_in_bounds: "outcome (tcp_server_main env) \<noteq> OutOfBounds"
  by (auto simp: tcp_server_main_def call_defs recv_call_def buffer_store_def BUFFER_SIZE_def
      split: option.splits)

lemma tcp_client_in_bounds: "outcome (tcp_client_main env) \<noteq> OutOfBounds"
  by (auto simp: tcp_client_main_def call_defs recv_call_def buffer_store_def BUFFER_SIZE_def
      split: option.splits)

lemma udp_client_in_bounds: "outcome (udp_client_main env) \<noteq> OutOfBounds"
  by (auto simp: udp_client_main_def call_defs recvfrom_call_def recv_call_def buffer_store_def
      BUFFER_SIZE_def split: option.splits)

lemma tcp_server_exit:
  "outcome (tcp_server_main env) = Exit (if tcp_server_setup_fails env then 1 else 0)"
  by (auto simp: tcp_server_main_def call_defs recv_call_def buffer_store_def BUFFER_SIZE_def
      tcp_server_setup_fails_def split: option.splits)

lemma tcp_client_exit:
  "outcome (tcp_client_main env) =
     Exit (if tcp_client_setup_fails env \<or> send_res env = None \<or> recv_res env = None
           then 1 else 0)"
  by (auto simp: tcp_client_main_def call_defs recv_call_def buffer_store_def BUFFER_SIZE_def
      tcp_client_setup_fails_def split: option.splits)

lemma udp_client_exit:
  "outcome (udp_client_main env) =
     Exit (if udp_client_setup_fails env \<or> sendto_res env = None \<or> recvfrom_res env = None
           then 1 else 0)"
  by (auto simp: udp_client_main_def call_defs recvfrom_call_def recv_call_def buffer_store_def
      BUFFER_SIZE_def udp_client_setup_fails_def split: option.splits)

lemma tcp_server_closes:
  "closed_fds (trace (tcp_server_main env)) = rev (created_fds (trace (tcp_server_main env)))"
  by (auto simp: tcp_server_main_def call_defs created_fds_def closed_fds_def recv_call_def
      buffer_store_def BUFFER_SIZE_def split: option.splits)

lemma tcp_server_created:
  "created_fds (trace (tcp_server_main env)) =
     (case socket_res env of None \<Rightarrow> []
      | Some s \<Rightarrow> int s #
          (if bind_res env \<and> listen_res env
           then (case accept_res env of None \<Rightarrow> [] | Some (c, a) \<Rightarrow> [int c]) else []))"
  by (auto simp: tcp_server_main_def call_defs created_fds_def recv_call_def
      buffer_store_def BUFFER_SIZE_def split: option.splits)

lemma tcp_client_closes:
  "socket_res env = Some fd \<Longrightarrow> closed_fds (trace (tcp_client_main env)) = [int fd]"
  by (auto simp: tcp_client_main_def call_defs closed_fds_def recv_call_def
      buffer_store_def BUFFER_SIZE_def split: option.splits)

lemma udp_client_closes:
  "socket_res env = Some fd \<Longrightarrow> closed_fds (trace (udp_client_main env)) = [int fd]"
  by (auto simp: udp_client_main_def call_defs closed_fds_def recvfrom_call_def recv_call_def
      buffer_store_def BUFFER_SIZE_def split: option.splits)

lemma tcp_server_listens:
  "listen_backlogs (trace (tcp_server_main env)) =
     (if socket_res env \<noteq> None \<and> bind_res env then [5] else [])"
  by (auto simp: tcp_server_main_def call_defs listen_backlogs_def recv_call_def
      buffer_store_def BUFFER_SIZE_def MAX_PENDING_CONNECTIONS_def split: option.splits)

lemma tcp_server_accepts:
  "accept_calls (trace (tcp_server_main env)) =
     (if socket_res env \<noteq> None \<and> bind_res env \<and> listen_res env
      then [value_ret (socket_res env)] else [])"
  by (auto simp: tcp_server_main_def call_defs accept_calls_def recv_call_def
      buffer_store_def BUFFER_SIZE_def split: option.splits)

lemma tcp_server_receives:
  "\<not> tcp_server_setup_fails env \<and> recv_res env = Some msg \<longrightarrow>
     receive_requests (trace (tcp_server_main env)) = [BUFFER_SIZE - 1] \<and>
     final_buffer (tcp_server_main env) =
       take (BUFFER_SIZE - 1) msg @
       NUL # replicate (BUFFER_SIZE - 1 - min (length msg) (BUFFER_SIZE - 1)) NUL \<and>
     (length msg = BUFFER_SIZE - 1 \<longrightarrow> final_buffer (tcp_server_main env) = msg @ [NUL]) \<and>
     (BUFFER_SIZE \<le> length msg \<longrightarrow>
        final_buffer (tcp_server_main env) = take (BUFFER_SIZE - 1) msg @ [NUL]) \<and>
     set (sent_payloads (trace (tcp_server_main env))) \<subseteq> {tcp_response_message}"
  using recv_then_store [of "replicate BUFFER_SIZE NUL" msg]
  by (auto simp: replicate_buffer tcp_server_main_def call_defs recv_call_Some
      tcp_server_setup_fails_def receive_requests_def sent_payloads_def BUFFER_SIZE_def)

lemma tcp_client_receives:
  "\<not> tcp_client_setup_fails env \<and> send_res env \<noteq> None \<and> recv_res env = Some msg \<longrightarrow>
     receive_requests (trace (tcp_client_main env)) = [BUFFER_SIZE - 1] \<and>
     final_buffer (tcp_client_main env) =
       take (BUFFER_SIZE - 1) msg @
       NUL # replicate (BUFFER_SIZE - 1 - min (length msg) (BUFFER_SIZE - 1)) NUL \<and>
     (length msg = BUFFER_SIZE - 1 \<longrightarrow> final_buffer (tcp_client_main env) = msg @ [NUL]) \<and>
     (BUFFER_SIZE \<le> length msg \<longrightarrow>
        final_buffer (tcp_client_main env) = take (BUFFER_SIZE - 1) msg @ [NUL]) \<and>
     set (sent_payloads (trace (tcp_client_main env))) \<subseteq> {tcp_message}"
  using recv_then_store [of "replicate BUFFER_SIZE NUL" msg]
  by (auto simp: replicate_buffer tcp_client_main_def call_defs recv_call_Some
      tcp_client_setup_fails_def receive_requests_def sent_payloads_def BUFFER_SIZE_def)

lemma udp_client_receives:
  "\<not> udp_client_setup_fails env \<and> sendto_res env \<noteq> None \<and>
   recvfrom_res env = Some (msg, src) \<longrightarrow>
     receive_requests (trace (udp_client_main env)) = [BUFFER_SIZE - 1] \<and>
     final_buffer (udp_client_main env) =
       take (BUFFER_SIZE - 1) msg @
       NUL # replicate (BUFFER_SIZE - 1 - min (length msg) (BUFFER_SIZE - 1)) NUL \<and>
     (length msg = BUFFER_SIZE - 1 \<longrightarrow> final_buffer (udp_client_main env) = msg @ [NUL]) \<and>
     (BUFFER_SIZE \<le> length msg \<longrightarrow>
        final_buffer (udp_client_main env) = take (BUFFER_SIZE - 1) msg @ [NUL]) \<and>
     set (sent_payloads (trace (udp_client_main env))) \<subseteq> {udp_message}"
  using recv_then_store [of "replicate BUFFER_SIZE NUL" msg]
  by (auto simp: replicate_buffer udp_client_main_def call_defs recvfrom_call_Some
      udp_client_setup_fails_def receive_requests_def sent_payloads_def BUFFER_SIZE_def)

section \<open>Claims\<close>

text \<open>
  C1: in every iteration of the datagram server's loop in which \<open>recvfrom\<close> returns a
  positive length, the reply is sent to exactly the address that this \<open>recvfrom\<close> call
  filled in, whatever address the state held from earlier iterations; an iteration whose
  receive returns \<open>0\<close> or \<open>-1\<close> sends nothing. Over any run of the loop, the destinations
  of the replies of the iterations are, iteration by iteration, the senders of the
  datagrams of positive length.
\<close>

theorem udp_server_replies_to_sender:
  assumes "length (buffer st) = BUFFER_SIZE"
  shows "(let (n, buf, addr, addrlen) =
             recvfrom_call (fst inp) (buffer st) (BUFFER_SIZE - 1) (client_address st)
               (client_address_len st)
          in reply_destinations (fst (udp_server_iteration st inp)) =
               (if 0 < n then [addr] else [])) \<and>
         map reply_destinations (fst (udp_server_iterations st inps)) =
           map (\<lambda>inp. case fst inp of
                         None \<Rightarrow> []
                       | Some (bs, src) \<Rightarrow> if bs = [] then [] else [src]) inps"
proof
  obtain n buf addr addrlen where rc:
    "recvfrom_call (fst inp) (buffer st) (BUFFER_SIZE - 1) (client_address st)
       (client_address_len st) = (n, buf, addr, addrlen)"
    by (cases "recvfrom_call (fst inp) (buffer st) (BUFFER_SIZE - 1) (client_address st)
       (client_address_len st)") auto
  from recvfrom_call_positive [OF rc] iteration_destinations [OF assms, of inp]
  have "reply_destinations (fst (udp_server_iteration st inp)) = (if 0 < n then [addr] else [])"
    by (auto split: option.splits)
  with rc show "let (n, buf, addr, addrlen) =
             recvfrom_call (fst inp) (buffer st) (BUFFER_SIZE - 1) (client_address st)
               (client_address_len st)
          in reply_destinations (fst (udp_server_iteration st inp)) =
               (if 0 < n then [addr] else [])"
    by simp
next
  from assms show "map reply_destinations (fst (udp_server_iterations st inps)) =
           map (\<lambda>inp. case fst inp of
                         None \<Rightarrow> []
                       | Some (bs, src) \<Rightarrow> if bs = [] then [] else [src]) inps"
  proof (induction inps arbitrary: st)
    case Nil
    show ?case by simp
  next
    case (Cons inp inps)
    from iteration_continues [OF Cons.prems, of inp]
    obtain es st' where it: "udp_server_iteration st inp = (es, st', None)"
      and len': "length (buffer st') = BUFFER_SIZE" by blast
    from iteration_destinations [OF Cons.prems, of inp] it
    have es: "reply_destinations es =
        (case fst inp of None \<Rightarrow> [] | Some (bs, src) \<Rightarrow> if bs = [] then [] else [src])"
      by simp
    from Cons.IH [OF len'] it es show ?case
      by (cases "udp_server_iterations st' inps") simp
  qed
qed

theorem udp_server_replies_to_sender_witness:
  "length (buffer (idle_state\<lparr>client_address := client_a\<rparr>)) = BUFFER_SIZE \<and>
   reply_destinations
     (fst (udp_server_iteration (idle_state\<lparr>client_address := client_a\<rparr>)
        (Some (''B'', client_b), Some 22))) = [client_b] \<and>
   map reply_destinations
     (fst (udp_server_iterations (idle_state\<lparr>client_address := client_a\<rparr>)
        [(Some (''A'', client_a), Some 22), (None, None), (Some (''B'', client_b), Some 22)])) =
     [[client_a], [], [client_b]]"
proof -
  have len: "length (buffer (idle_state\<lparr>client_address := client_a\<rparr>)) = BUFFER_SIZE"
    by (simp add: idle_state_def)
  have pos: "0 < int (min (length ''B'') (BUFFER_SIZE - 1))"
    by (simp add: BUFFER_SIZE_def)
  from udp_server_replies_to_sender [OF len,
      where inp = "(Some (''B'', client_b), Some 22)"
        and inps = "[(Some (''A'', client_a), Some 22), (None, None),
                     (Some (''B'', client_b), Some 22)]"]
  show ?thesis
    using len pos by (simp add: recvfrom_call_Some del: udp_server_iterations.simps)
qed

text \<open>
  C2: in the stream server, once a connection is accepted, with \<open>n\<close> the value \<open>recv\<close>
  returns and \<open>m\<close> the value \<open>send\<close> returns: if \<open>n = 0\<close> the peer has closed, which is
  reported on standard output and not on the error stream, and nothing is sent; if \<open>n\<close> is
  positive exactly one message is sent, the fixed reply, and a negative \<open>m\<close> is reported on
  the error stream as a failed send; if \<open>n\<close> is negative the failed receive is reported on
  the error stream and nothing is sent. (The only other line the error stream can hold is
  the warning of a failed \<open>setsockopt\<close>.)
\<close>

theorem tcp_server_exchange:
  assumes "socket_res env = Some s" and "bind_res env" and "listen_res env"
    and "accept_res env = Some (c, a)"
  shows "(let n = fst (recv_call (recv_res env) (replicate BUFFER_SIZE NUL) (BUFFER_SIZE - 1));
              m = value_ret (send_res env);
              t = trace (tcp_server_main env);
              w = (if setsockopt_res env then []
                   else [''Warning: setsockopt SO_REUSEADDR failed. ''])
          in Sys_recv (int c) (BUFFER_SIZE - 1) n \<in> set t \<and>
             (n = 0 \<longrightarrow>
                sent_payloads t = [] \<and> error_lines t = w \<and>
                Cout ''Client disconnected.'' \<in> set t) \<and>
             (0 < n \<longrightarrow>
                sent_payloads t = [tcp_response_message] \<and>
                Sys_send (int c) tcp_response_message m \<in> set t \<and>
                error_lines t = w @ (if m < 0 then [''Error: Send failed. ''] else [])) \<and>
             (n < 0 \<longrightarrow>
                sent_payloads t = [] \<and> error_lines t = w @ [''Error: Receive failed. '']))"
proof (cases "recv_res env")
  case None
  with assms show ?thesis
    by (simp add: tcp_server_main_def call_defs recv_call_None sent_payloads_def
        error_lines_def)
next
  case (Some msg)
  show ?thesis
  proof (cases "msg = []")
    case True
    with Some assms show ?thesis
      by (simp add: tcp_server_main_def call_defs recv_call_Some sent_payloads_def
          error_lines_def)
  next
    case False
    with Some assms recv_then_store [of "replicate BUFFER_SIZE NUL" msg] show ?thesis
      by (cases "send_res env")
        (simp_all add: tcp_server_main_def call_defs recv_call_Some sent_payloads_def
          error_lines_def BUFFER_SIZE_def)
  qed
qed

theorem tcp_server_exchange_witness:
  "Sys_recv 4 (BUFFER_SIZE - 1) 5 \<in> set (trace (tcp_server_main friendly_env)) \<and>
   sent_payloads (trace (tcp_server_main friendly_env)) = [tcp_response_message] \<and>
   error_lines (trace (tcp_server_main friendly_env)) = [] \<and>
   Sys_recv 4 (BUFFER_SIZE - 1) 0
     \<in> set (trace (tcp_server_main (friendly_env\<lparr>recv_res := Some []\<rparr>))) \<and>
   sent_payloads (trace (tcp_server_main (friendly_env\<lparr>recv_res := Some []\<rparr>))) = [] \<and>
   error_lines (trace (tcp_server_main (friendly_env\<lparr>recv_res := Some []\<rparr>))) = [] \<and>
   Sys_recv 4 (BUFFER_SIZE - 1) (-1)
     \<in> set (trace (tcp_server_main (friendly_env\<lparr>recv_res := None\<rparr>))) \<and>
   sent_payloads (trace (tcp_server_main (friendly_env\<lparr>recv_res := None\<rparr>))) = [] \<and>
   error_lines (trace (tcp_server_main (friendly_env\<lparr>recv_res := None\<rparr>))) =
     [''Error: Receive failed. ''] \<and>
   sent_payloads (trace (tcp_server_main (friendly_env\<lparr>send_res := None\<rparr>))) =
     [tcp_response_message] \<and>
   error_lines (trace (tcp_server_main (friendly_env\<lparr>send_res := None\<rparr>))) =
     [''Error: Send failed. '']"
proof -
  have acc: "socket_res (friendly_env\<lparr>recv_res := r, send_res := m\<rparr>) = Some 3"
    "bind_res (friendly_env\<lparr>recv_res := r, send_res := m\<rparr>)"
    "listen_res (friendly_env\<lparr>recv_res := r, send_res := m\<rparr>)"
    "accept_res (friendly_env\<lparr>recv_res := r, send_res := m\<rparr>) = Some (4, client_a)"
    for r m
    by (simp_all add: friendly_env_def)
  have same: "friendly_env\<lparr>recv_res := Some ''Hello'', send_res := Some 22\<rparr> = friendly_env"
    "friendly_env\<lparr>recv_res := Some ''Hello'', send_res := None\<rparr> =
       friendly_env\<lparr>send_res := None\<rparr>"
    "friendly_env\<lparr>recv_res := Some [], send_res := Some 22\<rparr> =
       friendly_env\<lparr>recv_res := Some []\<rparr>"
    "friendly_env\<lparr>recv_res := None, send_res := Some 22\<rparr> =
       friendly_env\<lparr>recv_res := None\<rparr>"
    by (simp_all add: friendly_env_def)
  from tcp_server_exchange [OF acc [where r = "Some ''Hello''" and m = "Some 22"]]
    tcp_server_exchange [OF acc [where r = "Some []" and m = "Some 22"]]
    tcp_server_exchange [OF acc [where r = None and m = "Some 22"]]
    tcp_server_exchange [OF acc [where r = "Some ''Hello''" and m = None]]
  show ?thesis
    unfolding same
    by (simp add: Let_def recv_call_Some recv_call_None value_ret_def BUFFER_SIZE_def
        friendly_env_def)
qed

text \<open>
  C3, as amended: a program whose setup calls return a failure (\<open>socket\<close>, \<open>bind\<close>, \<open>listen\<close>
  and \<open>accept\<close> in the stream server; \<open>socket\<close>, address conversion and, in the stream
  client, \<open>connect\<close> in the clients) returns 1 from \<open>main\<close>, and a program that completes
  normally returns 0: the stream server when it has accepted a connection, its receive
  has returned and, if it sent, its send has returned a count; a client when its setup, its
  send and its receive have succeeded. Setup failures are not the only source of exit code
  1: a client returns 1 also when its send or its receive returns \<open>-1\<close>, and in no other
  case. Nothing is said of the exit code of the stream server after its receive or its
  send has returned \<open>-1\<close>.
\<close>

theorem exit_codes:
  "(tcp_server_setup_fails env \<longrightarrow> outcome (tcp_server_main env) = Exit 1) \<and>
   (\<not> tcp_server_setup_fails env \<and>
    (recv_res env = Some [] \<or> (recv_res env \<noteq> None \<and> send_res env \<noteq> None)) \<longrightarrow>
      outcome (tcp_server_main env) = Exit 0) \<and>
   (outcome (tcp_client_main env) = Exit 1 \<longleftrightarrow>
      tcp_client_setup_fails env \<or> send_res env = None \<or> recv_res env = None) \<and>
   (\<not> tcp_client_setup_fails env \<and> send_res env \<noteq> None \<and> recv_res env \<noteq> None \<longrightarrow>
      outcome (tcp_client_main env) = Exit 0) \<and>
   (outcome (udp_client_main env) = Exit 1 \<longleftrightarrow>
      udp_client_setup_fails env \<or> sendto_res env = None \<or> recvfrom_res env = None) \<and>
   (\<not> udp_client_setup_fails env \<and> sendto_res env \<noteq> None \<and> recvfrom_res env \<noteq> None \<longrightarrow>
      outcome (udp_client_main env) = Exit 0)"
  using tcp_server_exit [of env] tcp_client_exit [of env] udp_client_exit [of env]
  by auto

theorem exit_codes_witness:
  "outcome (tcp_server_main friendly_env) = Exit 0 \<and>
   outcome (tcp_client_main friendly_env) = Exit 0 \<and>
   outcome (udp_client_main friendly_env) = Exit 0 \<and>
   outcome (tcp_server_main (friendly_env\<lparr>recv_res := Some []\<rparr>)) = Exit 0 \<and>
   outcome (tcp_server_main (friendly_env\<lparr>bind_res := False\<rparr>)) = Exit 1 \<and>
   outcome (tcp_client_main (friendly_env\<lparr>connect_res := False\<rparr>)) = Exit 1 \<and>
   outcome (udp_client_main (friendly_env\<lparr>pton_res := PtonInvalid\<rparr>)) = Exit 1 \<and>
   outcome (tcp_client_main (friendly_env\<lparr>recv_res := None\<rparr>)) = Exit 1 \<and>
   outcome (udp_client_main (friendly_env\<lparr>sendto_res := None\<rparr>)) = Exit 1"
  using exit_codes [of friendly_env]
    exit_codes [of "friendly_env\<lparr>recv_res := Some []\<rparr>"]
    exit_codes [of "friendly_env\<lparr>bind_res := False\<rparr>"]
    exit_codes [of "friendly_env\<lparr>connect_res := False\<rparr>"]
    exit_codes [of "friendly_env\<lparr>pton_res := PtonInvalid\<rparr>"]
    exit_codes [of "friendly_env\<lparr>recv_res := None\<rparr>"]
    exit_codes [of "friendly_env\<lparr>sendto_res := None\<rparr>"]
  by (simp add: friendly_env_def tcp_server_setup_fails_def tcp_client_setup_fails_def
      udp_client_setup_fails_def)

text \<open>
  Exit code 1 does not come from setup failures only: the stream client whose \<open>socket\<close>,
  address conversion and \<open>connect\<close> succeed and whose \<open>send\<close> fails returns 1.
\<close>

theorem exit_code_one_without_setup_failure:
  "outcome (tcp_client_main (friendly_env\<lparr>send_res := None\<rparr>)) = Exit 1 \<and>
   \<not> tcp_client_setup_fails (friendly_env\<lparr>send_res := None\<rparr>)"
  by (simp add: tcp_client_exit friendly_env_def tcp_client_setup_fails_def)

text \<open>
  C4: the datagram server's receive loop never exits normally. Entered with the buffer it
  declares, the loop returns no value on any stream of answers, and after any finite number
  of answers the process has not stopped; so \<open>main\<close>, once \<open>socket\<close> and \<open>bind\<close> have
  succeeded, does not return. In each iteration a failed \<open>recvfrom\<close> (result \<open>-1\<close>) is
  reported on the error stream and control returns to the head of the loop; an empty
  datagram is reported, nothing is sent, and the loop continues; a failed \<open>sendto\<close> after a
  datagram of positive length is reported on the error stream and the loop continues.
\<close>

theorem udp_server_loop_never_exits:
  assumes "length (buffer st) = BUFFER_SIZE"
  shows "udp_server_loop st ins = None \<and>
    snd (udp_server_iterations st inps) = None \<and>
    (socket_res env \<noteq> None \<and> bind_res env \<longrightarrow> udp_server_main env ins = None) \<and>
    udp_server_iteration st (None, so) =
      ([Sys_recvfrom (server_socket st) (BUFFER_SIZE - 1) (-1),
        Cerr ''Error: Recvfrom failed. ''], st, None) \<and>
    (\<exists>st'. udp_server_iteration st (Some ([], src), so) =
      ([Sys_recvfrom (server_socket st) (BUFFER_SIZE - 1) 0,
        Cout ''Received empty datagram.''], st', None)) \<and>
    (bs \<noteq> [] \<longrightarrow>
      (\<exists>n st'. 0 < n \<and> udp_server_iteration st (Some (bs, src), None) =
        ([Sys_recvfrom (server_socket st) (BUFFER_SIZE - 1) n, Cout ''Received from '',
          Sys_sendto (server_socket st) udp_response_message src sizeof_sockaddr_in (-1),
          Cerr ''Error: Sendto failed. ''], st', None)))"
proof (intro conjI impI)
  show "udp_server_loop st ins = None"
    using assms by (rule loop_never_returns)
  show "snd (udp_server_iterations st inps) = None"
    using iterations_never_stop [OF assms] by simp
  show "udp_server_iteration st (None, so) =
      ([Sys_recvfrom (server_socket st) (BUFFER_SIZE - 1) (-1),
        Cerr ''Error: Recvfrom failed. ''], st, None)"
    by (rule iteration_recv_fails)
  show "\<exists>st'. udp_server_iteration st (Some ([], src), so) =
      ([Sys_recvfrom (server_socket st) (BUFFER_SIZE - 1) 0,
        Cout ''Received empty datagram.''], st', None)"
    by (simp add: iteration_empty)
next
  assume "socket_res env \<noteq> None \<and> bind_res env"
  then show "udp_server_main env ins = None"
    by (simp add: udp_server_main_result)
next
  assume "bs \<noteq> []"
  then have "0 < int (min (length bs) (BUFFER_SIZE - 1))"
    by (simp add: BUFFER_SIZE_def)
  then show "\<exists>n st'. 0 < n \<and> udp_server_iteration st (Some (bs, src), None) =
        ([Sys_recvfrom (server_socket st) (BUFFER_SIZE - 1) n, Cout ''Received from '',
          Sys_sendto (server_socket st) udp_response_message src sizeof_sockaddr_in (-1),
          Cerr ''Error: Sendto failed. ''], st', None)"
    using iteration_datagram [OF assms \<open>bs \<noteq> []\<close>, of src None]
    by (simp add: value_ret_def)
qed

theorem udp_server_loop_never_exits_witness:
  "length (buffer idle_state) = BUFFER_SIZE \<and>
   udp_server_loop idle_state (sconst (None, None)) = None \<and>
   snd (udp_server_iterations idle_state
          [(None, None), (Some ([], client_a), None), (Some (''A'', client_b), None)]) = None \<and>
   socket_res friendly_env \<noteq> None \<and> bind_res friendly_env \<and>
   udp_server_main friendly_env (sconst (None, None)) = None \<and>
   ''A'' \<noteq> [] \<and>
   (\<exists>n st'. 0 < n \<and> udp_server_iteration idle_state (Some (''A'', client_b), None) =
        ([Sys_recvfrom (server_socket idle_state) (BUFFER_SIZE - 1) n, Cout ''Received from '',
          Sys_sendto (server_socket idle_state) udp_response_message client_b
            sizeof_sockaddr_in (-1),
          Cerr ''Error: Sendto failed. ''], st', None))"
proof -
  have len: "length (buffer idle_state) = BUFFER_SIZE"
    by (simp add: idle_state_def)
  have ne: "''A'' \<noteq> []"
    by simp
  have env: "socket_res friendly_env \<noteq> None \<and> bind_res friendly_env"
    by (simp add: friendly_env_def)
  show ?thesis
    using len ne env udp_server_loop_never_exits [OF len, where ins = "sconst (None, None)"
        and inps = "[(None, None), (Some ([], client_a), None), (Some (''A'', client_b), None)]"
        and env = friendly_env
        and so = None and src = client_b and bs = "''A''"]
    by blast
qed

text \<open>
  C5: on every path through the stream server's \<open>main\<close>, the descriptors it closes are
  exactly the descriptors it created, in the reverse order of creation, and the process
  then ends by returning from \<open>main\<close>. When \<open>accept\<close> succeeded both sockets exist: the
  accepted socket is closed first and the listening socket second.
\<close>

theorem tcp_server_releases_sockets:
  "closed_fds (trace (tcp_server_main env)) = rev (created_fds (trace (tcp_server_main env))) \<and>
   (\<exists>code. outcome (tcp_server_main env) = Exit code) \<and>
   (socket_res env = Some s \<and> bind_res env \<and> listen_res env \<and> accept_res env = Some (c, a) \<longrightarrow>
      created_fds (trace (tcp_server_main env)) = [int s, int c] \<and>
      closed_fds (trace (tcp_server_main env)) = [int c, int s])"
  using tcp_server_closes [of env] tcp_server_created [of env] tcp_server_exit [of env]
  by auto

theorem tcp_server_releases_sockets_witness:
  "socket_res friendly_env = Some 3 \<and> bind_res friendly_env \<and> listen_res friendly_env \<and>
   accept_res friendly_env = Some (4, client_a) \<and>
   created_fds (trace (tcp_server_main friendly_env)) = [3, 4] \<and>
   closed_fds (trace (tcp_server_main friendly_env)) = [4, 3] \<and>
   created_fds (trace (tcp_server_main (friendly_env\<lparr>listen_res := False\<rparr>))) = [3] \<and>
   closed_fds (trace (tcp_server_main (friendly_env\<lparr>listen_res := False\<rparr>))) = [3]"
  using tcp_server_releases_sockets [of friendly_env 3 4 client_a]
    tcp_server_releases_sockets [of "friendly_env\<lparr>listen_res := False\<rparr>" 3 4 client_a]
    tcp_server_created [of "friendly_env\<lparr>listen_res := False\<rparr>"]
  by (simp add: friendly_env_def)

text \<open>
  C6: every receiver asks for \<open>BUFFER_SIZE - 1\<close> bytes in its one receive call (one per
  iteration in the datagram server). Of a waiting message the buffer then holds the
  first \<open>BUFFER_SIZE - 1\<close> bytes followed by the terminator: a message of exactly
  \<open>BUFFER_SIZE - 1\<close> bytes is held whole, with the terminator in the last slot, and of a
  message of \<open>BUFFER_SIZE\<close> bytes or more only the first \<open>BUFFER_SIZE - 1\<close> bytes are held,
  the last slot again holding the terminator. What a receiver puts on the wire is only its
  own fixed message, never the buffer.
\<close>

theorem receivers_truncate:
  "(\<not> tcp_server_setup_fails env \<and> recv_res env = Some msg \<longrightarrow>
     receive_requests (trace (tcp_server_main env)) = [BUFFER_SIZE - 1] \<and>
     final_buffer (tcp_server_main env) =
       take (BUFFER_SIZE - 1) msg @
       NUL # replicate (BUFFER_SIZE - 1 - min (length msg) (BUFFER_SIZE - 1)) NUL \<and>
     (length msg = BUFFER_SIZE - 1 \<longrightarrow> final_buffer (tcp_server_main env) = msg @ [NUL]) \<and>
     (BUFFER_SIZE \<le> length msg \<longrightarrow>
        final_buffer (tcp_server_main env) = take (BUFFER_SIZE - 1) msg @ [NUL]) \<and>
     set (sent_payloads (trace (tcp_server_main env))) \<subseteq> {tcp_response_message}) \<and>
   (\<not> tcp_client_setup_fails env \<and> send_res env \<noteq> None \<and> recv_res env = Some msg \<longrightarrow>
     receive_requests (trace (tcp_client_main env)) = [BUFFER_SIZE - 1] \<and>
     final_buffer (tcp_client_main env) =
       take (BUFFER_SIZE - 1) msg @
       NUL # replicate (BUFFER_SIZE - 1 - min (length msg) (BUFFER_SIZE - 1)) NUL \<and>
     (length msg = BUFFER_SIZE - 1 \<longrightarrow> final_buffer (tcp_client_main env) = msg @ [NUL]) \<and>
     (BUFFER_SIZE \<le> length msg \<longrightarrow>
        final_buffer (tcp_client_main env) = take (BUFFER_SIZE - 1) msg @ [NUL]) \<and>
     set (sent_payloads (trace (tcp_client_main env))) \<subseteq> {tcp_message}) \<and>
   (\<not> udp_client_setup_fails env \<and> sendto_res env \<noteq> None \<and>
    recvfrom_res env = Some (msg, src) \<longrightarrow>
     receive_requests (trace (udp_client_main env)) = [BUFFER_SIZE - 1] \<and>
     final_buffer (udp_client_main env) =
       take (BUFFER_SIZE - 1) msg @
       NUL # replicate (BUFFER_SIZE - 1 - min (length msg) (BUFFER_SIZE - 1)) NUL \<and>
     (length msg = BUFFER_SIZE - 1 \<longrightarrow> final_buffer (udp_client_main env) = msg @ [NUL]) \<and>
     (BUFFER_SIZE \<le> length msg \<longrightarrow>
        final_buffer (udp_client_main env) = take (BUFFER_SIZE - 1) msg @ [NUL]) \<and>
     set (sent_payloads (trace (udp_client_main env))) \<subseteq> {udp_message}) \<and>
   (length (buffer st) = BUFFER_SIZE \<longrightarrow>
     receive_requests (fst (udp_server_iteration st (Some (msg, src), so))) = [BUFFER_SIZE - 1] \<and>
     buffer (fst (snd (udp_server_iteration st (Some (msg, src), so)))) =
       (if msg = [] then buffer st
        else take (BUFFER_SIZE - 1) msg @
             NUL # drop (Suc (min (length msg) (BUFFER_SIZE - 1))) (buffer st)) \<and>
     (length msg = BUFFER_SIZE - 1 \<longrightarrow>
        buffer (fst (snd (udp_server_iteration st (Some (msg, src), so)))) = msg @ [NUL]) \<and>
     (BUFFER_SIZE \<le> length msg \<longrightarrow>
        buffer (fst (snd (udp_server_iteration st (Some (msg, src), so)))) =
          take (BUFFER_SIZE - 1) msg @ [NUL]) \<and>
     set (sent_payloads (fst (udp_server_iteration st (Some (msg, src), so))))
       \<subseteq> {udp_response_message})"
  by (intro conjI tcp_server_receives tcp_client_receives udp_client_receives
      udp_server_receives)

theorem receivers_truncate_witness:
  "final_buffer (tcp_server_main (friendly_env\<lparr>recv_res := Some (replicate 1023 CHR ''x''),
       recvfrom_res := Some (replicate 1023 CHR ''x'', client_a)\<rparr>)) =
     replicate 1023 CHR ''x'' @ [NUL] \<and>
   final_buffer (tcp_client_main (friendly_env\<lparr>recv_res := Some (replicate 1023 CHR ''x''),
       recvfrom_res := Some (replicate 1023 CHR ''x'', client_a)\<rparr>)) =
     replicate 1023 CHR ''x'' @ [NUL] \<and>
   final_buffer (udp_client_main (friendly_env\<lparr>recv_res := Some (replicate 1023 CHR ''x''),
       recvfrom_res := Some (replicate 1023 CHR ''x'', client_a)\<rparr>)) =
     replicate 1023 CHR ''x'' @ [NUL] \<and>
   buffer (fst (snd (udp_server_iteration idle_state
       (Some (replicate 1023 CHR ''x'', client_a), Some 22)))) =
     replicate 1023 CHR ''x'' @ [NUL] \<and>
   final_buffer (tcp_server_main (friendly_env\<lparr>recv_res := Some (replicate 1024 CHR ''x''),
       recvfrom_res := Some (replicate 1024 CHR ''x'', client_a)\<rparr>)) =
     replicate 1023 CHR ''x'' @ [NUL] \<and>
   final_buffer (tcp_client_main (friendly_env\<lparr>recv_res := Some (replicate 1024 CHR ''x''),
       recvfrom_res := Some (replicate 1024 CHR ''x'', client_a)\<rparr>)) =
     replicate 1023 CHR ''x'' @ [NUL] \<and>
   final_buffer (udp_client_main (friendly_env\<lparr>recv_res := Some (replicate 1024 CHR ''x''),
       recvfrom_res := Some (replicate 1024 CHR ''x'', client_a)\<rparr>)) =
     replicate 1023 CHR ''x'' @ [NUL] \<and>
   buffer (fst (snd (udp_server_iteration idle_state
       (Some (replicate 1024 CHR ''x'', client_a), Some 22)))) =
     replicate 1023 CHR ''x'' @ [NUL] \<and>
   sent_payloads (trace (tcp_server_main (friendly_env\<lparr>recv_res := Some (replicate 1024 CHR ''x''),
       recvfrom_res := Some (replicate 1024 CHR ''x'', client_a)\<rparr>))) = [tcp_response_message]"
proof -
  let ?e1 = "friendly_env\<lparr>recv_res := Some (replicate 1023 CHR ''x''),
       recvfrom_res := Some (replicate 1023 CHR ''x'', client_a)\<rparr>"
  let ?e2 = "friendly_env\<lparr>recv_res := Some (replicate 1024 CHR ''x''),
       recvfrom_res := Some (replicate 1024 CHR ''x'', client_a)\<rparr>"
  have ok: "\<not> tcp_server_setup_fails ?e1" "\<not> tcp_client_setup_fails ?e1"
    "\<not> udp_client_setup_fails ?e1" "\<not> tcp_server_setup_fails ?e2"
    "\<not> tcp_client_setup_fails ?e2" "\<not> udp_client_setup_fails ?e2"
    by (simp_all add: friendly_env_def tcp_server_setup_fails_def tcp_client_setup_fails_def
        udp_client_setup_fails_def)
  have env: "send_res ?e1 \<noteq> None" "sendto_res ?e1 \<noteq> None" "send_res ?e2 \<noteq> None"
    "sendto_res ?e2 \<noteq> None"
    "recv_res ?e1 = Some (replicate 1023 CHR ''x'')"
    "recvfrom_res ?e1 = Some (replicate 1023 CHR ''x'', client_a)"
    "recv_res ?e2 = Some (replicate 1024 CHR ''x'')"
    "recvfrom_res ?e2 = Some (replicate 1024 CHR ''x'', client_a)"
    by (simp_all add: friendly_env_def)
  have len: "length (buffer idle_state) = BUFFER_SIZE"
    "length (replicate 1023 CHR ''x'') = BUFFER_SIZE - 1"
    "BUFFER_SIZE \<le> length (replicate 1024 CHR ''x'')"
    by (simp_all add: idle_state_def BUFFER_SIZE_def)
  have sent: "sent_payloads (trace (tcp_server_main ?e2)) = [tcp_response_message]"
    by (simp add: tcp_server_main_def call_defs recv_call_Some friendly_env_def
        sent_payloads_def BUFFER_SIZE_def buffer_store_def)
  have tk: "take (BUFFER_SIZE - 1) (replicate 1024 CHR ''x'') = replicate 1023 CHR ''x''"
    by (simp add: BUFFER_SIZE_def)
  have i1: "final_buffer (tcp_server_main ?e1) = replicate 1023 CHR ''x'' @ [NUL] \<and>
      final_buffer (tcp_client_main ?e1) = replicate 1023 CHR ''x'' @ [NUL] \<and>
      final_buffer (udp_client_main ?e1) = replicate 1023 CHR ''x'' @ [NUL] \<and>
      buffer (fst (snd (udp_server_iteration idle_state
        (Some (replicate 1023 CHR ''x'', client_a), Some 22)))) =
      replicate 1023 CHR ''x'' @ [NUL]"
    using receivers_truncate [of ?e1 "replicate 1023 CHR ''x''" client_a idle_state "Some 22"]
      ok env len
    by blast
  have i2: "final_buffer (tcp_server_main ?e2) =
        take (BUFFER_SIZE - 1) (replicate 1024 CHR ''x'') @ [NUL] \<and>
      final_buffer (tcp_client_main ?e2) =
        take (BUFFER_SIZE - 1) (replicate 1024 CHR ''x'') @ [NUL] \<and>
      final_buffer (udp_client_main ?e2) =
        take (BUFFER_SIZE - 1) (replicate 1024 CHR ''x'') @ [NUL] \<and>
      buffer (fst (snd (udp_server_iteration idle_state
        (Some (replicate 1024 CHR ''x'', client_a), Some 22)))) =
      take (BUFFER_SIZE - 1) (replicate 1024 CHR ''x'') @ [NUL]"
    using receivers_truncate [of ?e2 "replicate 1024 CHR ''x''" client_a idle_state "Some 22"]
      ok env len
    by blast
  from i1 i2 sent show ?thesis
    unfolding tk by blast
qed

text \<open>
  C7, as amended: in the datagram server a failure of \<open>socket\<close> or of \<open>bind\<close> is fatal, the
  process returns 1 and never reaches the loop. A failure of \<open>setsockopt\<close> is not: it is
  reported as a warning, and the server goes on to \<open>bind\<close> and, when that succeeds, into
  the loop, from which it does not return.
\<close>

theorem udp_server_setup_failures:
  "udp_server_main env ins =
     (if socket_res env = None \<or> \<not> bind_res env then Some (Exit 1) else None) \<and>
   (socket_res env \<noteq> None \<and> \<not> setsockopt_res env \<longrightarrow>
      Sys_setsockopt (value_ret (socket_res env)) (-1) \<in> set (fst (udp_server_setup env)) \<and>
      Cerr ''Warning: setsockopt SO_REUSEADDR failed. '' \<in> set (fst (udp_server_setup env)))"
  using udp_server_main_result [of env ins] setup_warning [of env]
  by blast

theorem udp_server_setup_failures_witness:
  "udp_server_main (friendly_env\<lparr>socket_res := None\<rparr>) (sconst (None, None)) = Some (Exit 1) \<and>
   udp_server_main (friendly_env\<lparr>bind_res := False\<rparr>) (sconst (None, None)) = Some (Exit 1) \<and>
   udp_server_main friendly_env (sconst (None, None)) = None \<and>
   socket_res (friendly_env\<lparr>setsockopt_res := False\<rparr>) \<noteq> None \<and>
   \<not> setsockopt_res (friendly_env\<lparr>setsockopt_res := False\<rparr>) \<and>
   Cerr ''Warning: setsockopt SO_REUSEADDR failed. ''
     \<in> set (fst (udp_server_setup (friendly_env\<lparr>setsockopt_res := False\<rparr>)))"
  using udp_server_setup_failures [of "friendly_env\<lparr>socket_res := None\<rparr>" "sconst (None, None)"]
    udp_server_setup_failures [of "friendly_env\<lparr>bind_res := False\<rparr>" "sconst (None, None)"]
    udp_server_setup_failures [of friendly_env "sconst (None, None)"]
    udp_server_setup_failures [of "friendly_env\<lparr>setsockopt_res := False\<rparr>" "sconst (None, None)"]
  by (simp add: friendly_env_def)

text \<open>
  A failed \<open>setsockopt\<close> is not fatal: with \<open>setsockopt\<close> returning \<open>-1\<close> and the other
  calls succeeding, the server enters its loop and does not exit.
\<close>

theorem setsockopt_failure_not_fatal:
  "\<not> setsockopt_res (friendly_env\<lparr>setsockopt_res := False\<rparr>) \<and>
   Sys_setsockopt 3 (-1) \<in> set (fst (udp_server_setup (friendly_env\<lparr>setsockopt_res := False\<rparr>))) \<and>
   udp_server_main (friendly_env\<lparr>setsockopt_res := False\<rparr>) (sconst (None, None)) = None"
  using setup_warning [of "friendly_env\<lparr>setsockopt_res := False\<rparr>"]
  by (simp add: udp_server_main_result friendly_env_def value_ret_def)

text \<open>
  C8: once \<open>socket\<close> has succeeded, every path through the stream client and through the
  datagram client (failed address conversion, failed connect, failed send, failed receive,
  normal completion) closes that socket exactly once, and closes nothing else, before
  \<open>main\<close> returns.
\<close>

theorem clients_close_socket_once:
  assumes "socket_res env = Some fd"
  shows "closed_fds (trace (tcp_client_main env)) = [int fd] \<and>
         closed_fds (trace (udp_client_main env)) = [int fd] \<and>
         (\<exists>code. outcome (tcp_client_main env) = Exit code) \<and>
         (\<exists>code. outcome (udp_client_main env) = Exit code)"
  using assms tcp_client_closes [of env fd] udp_client_closes [of env fd]
    tcp_client_exit [of env] udp_client_exit [of env]
  by simp

theorem clients_close_socket_once_witness:
  "socket_res friendly_env = Some 3 \<and>
   closed_fds (trace (tcp_client_main friendly_env)) = [3] \<and>
   closed_fds (trace (udp_client_main friendly_env)) = [3] \<and>
   socket_res (friendly_env\<lparr>connect_res := False, sendto_res := None\<rparr>) = Some 3 \<and>
   closed_fds (trace (tcp_client_main (friendly_env\<lparr>connect_res := False, sendto_res := None\<rparr>))) = [3] \<and>
   closed_fds (trace (udp_client_main (friendly_env\<lparr>connect_res := False, sendto_res := None\<rparr>))) = [3]"
proof -
  have a: "socket_res friendly_env = Some 3"
    by (simp add: friendly_env_def)
  have b: "socket_res (friendly_env\<lparr>connect_res := False, sendto_res := None\<rparr>) = Some 3"
    by (simp add: friendly_env_def)
  from a b clients_close_socket_once [OF a] clients_close_socket_once [OF b]
  show ?thesis by simp
qed

text \<open>
  C9: the stream server calls \<open>listen\<close> with a backlog of 5, once, when \<open>socket\<close> and \<open>bind\<close>
  succeeded; it calls \<open>accept\<close> on the listening socket exactly once when \<open>listen\<close>
  succeeded and never otherwise, so no run holds a second accept; and every run ends by
  returning from \<open>main\<close>.
\<close>

theorem tcp_server_single_accept:
  "MAX_PENDING_CONNECTIONS = 5 \<and>
   listen_backlogs (trace (tcp_server_main env)) =
     (if socket_res env \<noteq> None \<and> bind_res env then [MAX_PENDING_CONNECTIONS] else []) \<and>
   accept_calls (trace (tcp_server_main env)) =
     (if socket_res env \<noteq> None \<and> bind_res env \<and> listen_res env
      then [value_ret (socket_res env)] else []) \<and>
   length (accept_calls (trace (tcp_server_main env))) \<le> 1 \<and>
   (\<exists>code. outcome (tcp_server_main env) = Exit code)"
  using tcp_server_listens [of env] tcp_server_accepts [of env] tcp_server_exit [of env]
  by (simp add: MAX_PENDING_CONNECTIONS_def)

theorem tcp_server_single_accept_witness:
  "listen_backlogs (trace (tcp_server_main friendly_env)) = [5] \<and>
   accept_calls (trace (tcp_server_main friendly_env)) = [3] \<and>
   outcome (tcp_server_main friendly_env) = Exit 0"
  using tcp_server_single_accept [of friendly_env] tcp_server_exit [of friendly_env]
  by (simp add: friendly_env_def value_ret_def tcp_server_setup_fails_def)

text \<open>
  C10: every receive asks for \<open>BUFFER_SIZE - 1\<close> bytes, so a positive result \<open>n\<close> satisfies
  \<open>n \<le> BUFFER_SIZE - 1 < BUFFER_SIZE\<close> and the store of the terminator at index \<open>n\<close> is
  inside the buffer. No run of the stream server, of the stream client or of the datagram
  client ends in an out-of-bounds store, and no iteration of the datagram server does; the
  buffer keeps its size from iteration to iteration.
\<close>

theorem terminator_store_in_bounds:
  "(length buf = BUFFER_SIZE \<longrightarrow>
      (let (n, buf') = recv_call r buf (BUFFER_SIZE - 1)
       in length buf' = BUFFER_SIZE \<and>
          (0 < n \<longrightarrow> n \<le> int (BUFFER_SIZE - 1) \<and> n < int BUFFER_SIZE \<and>
             buffer_store buf' n NUL = Some (buf'[nat n := NUL])))) \<and>
   outcome (tcp_server_main env) \<noteq> OutOfBounds \<and>
   outcome (tcp_client_main env) \<noteq> OutOfBounds \<and>
   outcome (udp_client_main env) \<noteq> OutOfBounds \<and>
   (length (buffer st) = BUFFER_SIZE \<longrightarrow>
      snd (snd (udp_server_iteration st inp)) = None \<and>
      length (buffer (fst (snd (udp_server_iteration st inp)))) = BUFFER_SIZE) \<and>
   udp_server_main env ins \<noteq> Some OutOfBounds"
proof -
  have "length (buffer st) = BUFFER_SIZE \<longrightarrow>
      snd (snd (udp_server_iteration st inp)) = None \<and>
      length (buffer (fst (snd (udp_server_iteration st inp)))) = BUFFER_SIZE"
    using iteration_continues [of st inp] by auto
  moreover have "udp_server_main env ins \<noteq> Some OutOfBounds"
    by (simp add: udp_server_main_result)
  ultimately show ?thesis
    using recv_call_stores_in_bounds [of buf r] tcp_server_in_bounds [of env]
      tcp_client_in_bounds [of env] udp_client_in_bounds [of env]
    by blast
qed

theorem terminator_store_in_bounds_witness:
  "length (replicate BUFFER_SIZE NUL) = BUFFER_SIZE \<and>
   recv_call (Some (replicate 2000 CHR ''x'')) (replicate BUFFER_SIZE NUL) (BUFFER_SIZE - 1) =
     (1023, replicate 1023 CHR ''x'' @ [NUL]) \<and>
   (0::int) < 1023 \<and> (1023::int) < int BUFFER_SIZE \<and>
   buffer_store (replicate 1023 CHR ''x'' @ [NUL]) 1023 NUL =
     Some ((replicate 1023 CHR ''x'' @ [NUL])[nat 1023 := NUL]) \<and>
   length (buffer idle_state) = BUFFER_SIZE \<and>
   snd (snd (udp_server_iteration idle_state (Some (replicate 2000 CHR ''x'', client_a), None))) = None"
proof -
  have rc: "recv_call (Some (replicate 2000 CHR ''x'')) (replicate BUFFER_SIZE NUL) (BUFFER_SIZE - 1) =
     (1023, replicate 1023 CHR ''x'' @ [NUL])"
    by (simp add: recv_call_Some BUFFER_SIZE_def)
  have len: "length (buffer idle_state) = BUFFER_SIZE"
    by (simp add: idle_state_def)
  from terminator_store_in_bounds [of "replicate BUFFER_SIZE NUL" "Some (replicate 2000 CHR ''x'')"
      friendly_env idle_state "(Some (replicate 2000 CHR ''x'', client_a), None)" "sconst (None, None)"]
  show ?thesis
    using rc len by (simp add: BUFFER_SIZE_def)
qed

end
